theory Spec2Isabelle
  imports Main "HOL-Library.Word" "HOL-Library.Sublist" "HOL-Library.Multiset"
begin

section \<open>JavaScript strings\<close>

text \<open>
  A JavaScript string is a sequence of UTF-16 code units: \<open>length\<close>, \<open>trim\<close>, \<open>parseInt\<close>
  and a regular expression without the \<open>u\<close> flag all work on code units. String literals
  of the source that are plain ASCII are written \<open>js ''...''\<close>; the others list their code
  units.
\<close>

type_synonym jsstring = "16 word list"

definition js :: "string \<Rightarrow> jsstring" where
  "js s = map of_char s"

text \<open>
  White space and line terminators of ECMAScript (the characters \<open>trim\<close> strips, that
  \<open>parseInt\<close> skips and that \<open>\s\<close> matches): TAB, LF, VT, FF, CR, SP, NBSP, U+1680,
  U+2000..U+200A, LS, PS, U+202F, U+205F, U+3000, U+FEFF.
\<close>

definition isWhiteSpace :: "16 word \<Rightarrow> bool" where
  "isWhiteSpace c \<longleftrightarrow>
     (0x0009 \<le> c \<and> c \<le> 0x000D) \<or> c = 0x0020 \<or> c = 0x00A0 \<or> c = 0x1680 \<or>
     (0x2000 \<le> c \<and> c \<le> 0x200A) \<or> c = 0x2028 \<or> c = 0x2029 \<or> c = 0x202F \<or>
     c = 0x205F \<or> c = 0x3000 \<or> c = 0xFEFF"

definition trim :: "jsstring \<Rightarrow> jsstring" where
  "trim s = rev (dropWhile isWhiteSpace (rev (dropWhile isWhiteSpace s)))"

text \<open>A value interpolated into a template literal: \<open>undefined\<close> prints as its name.\<close>

definition interpolate :: "jsstring option \<Rightarrow> jsstring" where
  "interpolate v = (case v of None \<Rightarrow> js ''undefined'' | Some s \<Rightarrow> s)"

text \<open>Truthiness of a value of type \<open>string | undefined\<close>: defined and not empty.\<close>

definition truthy :: "jsstring option \<Rightarrow> bool" where
  "truthy v = (case v of None \<Rightarrow> False | Some s \<Rightarrow> s \<noteq> [])"

subsection \<open>Regular expressions\<close>

text \<open>
  The two patterns of the source are anchored at both ends (\<open>^...$\<close>, no flags), so
  \<open>test\<close> is a match of the whole string. Patterns are matched by derivatives.
\<close>

datatype regex =
    Fail
  | Empty
  | Class "16 word \<Rightarrow> bool"
  | Then regex regex
  | Or regex regex
  | Many regex
  | Many1 regex

fun nullable :: "regex \<Rightarrow> bool" where
  "nullable Fail = False"
| "nullable Empty = True"
| "nullable (Class P) = False"
| "nullable (Then r s) = (nullable r \<and> nullable s)"
| "nullable (Or r s) = (nullable r \<or> nullable s)"
| "nullable (Many r) = True"
| "nullable (Many1 r) = nullable r"

fun deriv :: "16 word \<Rightarrow> regex \<Rightarrow> regex" where
  "deriv c Fail = Fail"
| "deriv c Empty = Fail"
| "deriv c (Class P) = (if P c then Empty else Fail)"
| "deriv c (Then r s) =
     (if nullable r then Or (Then (deriv c r) s) (deriv c s) else Then (deriv c r) s)"
| "deriv c (Or r s) = Or (deriv c r) (deriv c s)"
| "deriv c (Many r) = Then (deriv c r) (Many r)"
| "deriv c (Many1 r) = Then (deriv c r) (Many r)"

fun test :: "regex \<Rightarrow> jsstring \<Rightarrow> bool" where
  "test r [] = nullable r"
| "test r (c # cs) = test (deriv c r) cs"

text \<open>\<open>/^[a-zA-Z\s]+$/\<close>\<close>

definition nameChar :: "16 word \<Rightarrow> bool" where
  "nameChar c \<longleftrightarrow> (0x61 \<le> c \<and> c \<le> 0x7A) \<or> (0x41 \<le> c \<and> c \<le> 0x5A) \<or> isWhiteSpace c"

definition nameRegex :: regex where
  "nameRegex = Many1 (Class nameChar)"

text \<open>\<open>/^[^\s@]+@[^\s@]+\.[^\s@]+$/\<close>\<close>

definition emailChar :: "16 word \<Rightarrow> bool" where
  "emailChar c \<longleftrightarrow> \<not> (isWhiteSpace c \<or> c = 0x40)"

definition emailRegex :: regex where
  "emailRegex =
     Then (Many1 (Class emailChar))
       (Then (Class (\<lambda>c. c = 0x40))
          (Then (Many1 (Class emailChar))
             (Then (Class (\<lambda>c. c = 0x2E)) (Many1 (Class emailChar)))))"

subsection \<open>parseInt\<close>

text \<open>
  \<open>parseInt(string)\<close> with no radix: skip leading white space, read an optional sign,
  switch to radix 16 after \<open>0x\<close> or \<open>0X\<close>, and read the longest prefix of digits of the
  radix; the rest of the string is ignored. \<open>None\<close> is \<open>NaN\<close> (no digit was read).
  The result is kept as a mathematical integer: the source only compares it with 1 and
  120, and rounding to a double is monotone and exact on that range.
\<close>

definition digitValue :: "nat \<Rightarrow> 16 word \<Rightarrow> nat option" where
  "digitValue R c =
     (let v = (if 0x30 \<le> c \<and> c \<le> 0x39 then Some (unat c - 48)
               else if 0x61 \<le> c \<and> c \<le> 0x7A then Some (unat c - 87)
               else if 0x41 \<le> c \<and> c \<le> 0x5A then Some (unat c - 55)
               else None)
      in case v of None \<Rightarrow> None | Some d \<Rightarrow> if d < R then Some d else None)"

definition radixValue :: "nat \<Rightarrow> jsstring \<Rightarrow> nat" where
  "radixValue R Z =
     foldl (\<lambda>acc c. case digitValue R c of None \<Rightarrow> acc | Some d \<Rightarrow> acc * R + d) 0 Z"

definition parseInt :: "jsstring \<Rightarrow> int option" where
  "parseInt inputString =
     (let S = dropWhile isWhiteSpace inputString;
          sign = (case S of c # _ \<Rightarrow> if c = 0x2D then - 1 else 1 | [] \<Rightarrow> (1::int));
          S1 = (case S of c # cs \<Rightarrow> if c = 0x2B \<or> c = 0x2D then cs else S | [] \<Rightarrow> S);
          hex = (take 2 S1 = [0x30, 0x78] \<or> take 2 S1 = [0x30, 0x58]);
          R = (if hex then 16 else 10);
          S2 = (if hex then drop 2 S1 else S1);
          Z = takeWhile (\<lambda>c. digitValue R c \<noteq> None) S2
      in if Z = [] then None else Some (sign * int (radixValue R Z)))"

section \<open>Validation (App.tsx)\<close>

text \<open>
  Each validator returns \<open>string | undefined\<close>: \<open>Some message\<close> is the error,
  \<open>None\<close> is \<open>undefined\<close> (the field is valid).
\<close>

definition validateName :: "jsstring \<Rightarrow> jsstring option" where
  "validateName name =
     (if trim name = [] then Some (js ''Name is required'')
      else if length (trim name) < 2 then Some (js ''Name must be at least 2 characters'')
      else if length (trim name) > 50 then Some (js ''Name must be less than 50 characters'')
      else if \<not> test nameRegex (trim name)
        then Some (js ''Name can only contain letters and spaces'')
      else None)"

definition validateEmail :: "jsstring \<Rightarrow> jsstring option" where
  "validateEmail email =
     (if trim email = [] then Some (js ''Email is required'')
      else if \<not> test emailRegex (trim email)
        then Some (js ''Please enter a valid email address'')
      else None)"

definition validateAge :: "jsstring \<Rightarrow> jsstring option" where
  "validateAge age =
     (if trim age = [] then Some (js ''Age is required'')
      else case parseInt (trim age) of
             None \<Rightarrow> Some (js ''Age must be a number'')
           | Some ageNum \<Rightarrow>
               if ageNum < 1 \<or> ageNum > 120 then Some (js ''Age must be between 1 and 120'')
               else None)"

section \<open>Data model (App.tsx)\<close>

datatype notifType = Success | Info | Warning

text \<open>
  \<open>createdAt\<close> is the store's server-timestamp sentinel when the store is available and
  the client's \<open>new Date()\<close> otherwise.
\<close>

datatype timestamp = ServerTimestamp | ClientDate nat

record User =
  u_id :: jsstring
  u_name :: jsstring
  u_email :: jsstring
  u_age :: jsstring
  u_createdAt :: "timestamp option"
  u_fcmToken :: "jsstring option"

text \<open>The object \<open>updatedData\<close> of \<open>updateUser\<close>.\<close>

record UserData =
  d_name :: jsstring
  d_email :: jsstring
  d_age :: jsstring
  d_fcmToken :: jsstring

record ValidationErrors =
  e_name :: "jsstring option"
  e_email :: "jsstring option"
  e_age :: "jsstring option"

record InAppNotification =
  n_id :: jsstring
  n_message :: jsstring
  n_type :: notifType
  n_timestamp :: nat

datatype operation = CREATE | UPDATE | DELETE

text \<open>
  The \<open>userData\<close> argument of \<open>notifyCRUDOperation\<close> as its three callers build it:
  the new record; \<open>{...updatedData, id, oldData?}\<close>; \<open>{id, deletedUser}\<close>.
\<close>

datatype payload =
    CreatePayload User
  | UpdatePayload UserData jsstring "User option"
  | DeletePayload jsstring User

fun payloadName :: "payload \<Rightarrow> jsstring option" where
  "payloadName (CreatePayload u) = Some (u_name u)"
| "payloadName (UpdatePayload d i old) = Some (d_name d)"
| "payloadName (DeletePayload i u) = None"

section \<open>Effects\<close>

text \<open>
  The observable trace of a handler: entries of the notification service's methods, the
  calls into the platform, the store and the remote functions (logged when the call is
  made, whether or not it then fails), the timers set, and the update of the visible
  user list. \<open>console\<close> output is not modelled.
\<close>

datatype serviceCall =
    ShowSystemNotification jsstring jsstring notifType
  | ShowFallbackNotification jsstring jsstring
  | SendPushNotification operation payload
  | SendEmailNotification operation payload

datatype event =
    Invoke serviceCall
  | ToastShow jsstring
  | AlertAlert jsstring jsstring
  | ConfirmDelete
  | VibrationVibrate nat
  | DisplayNotification jsstring jsstring jsstring
  | HttpsCallable jsstring operation payload
  | CollectionAdd UserData timestamp
  | DocUpdate jsstring UserData
  | DocDelete jsstring
  | SetTimeout jsstring nat
  | SetUsers

datatype platform = Android | IOS

text \<open>
  What the world outside the handler answers: which external calls throw (or reject),
  the identifier the store assigns, the values of \<open>generateUniqueId()\<close> in call order
  and of \<open>Date.now()\<close>, and whether the module \<open>functions\<close> was loaded.
\<close>

record env =
  platformOS :: platform
  functionsModule :: bool
  toastThrows :: bool
  alertThrows :: bool
  vibrateThrows :: bool
  displayThrows :: bool
  pushCallThrows :: bool
  emailCallThrows :: bool
  addResult :: "jsstring option"
  updateThrows :: bool
  deleteThrows :: bool
  uniqueId :: "nat \<Rightarrow> jsstring"
  now :: nat

text \<open>
  The component's state (\<open>useState\<close>), the three flags of the notification service, the
  trace, and the number of identifiers drawn so far. \<open>db\<close> is whether the store handle
  is set.
\<close>

record world =
  users :: "User list"
  loading :: bool
  submitting :: bool
  name :: jsstring
  email :: jsstring
  age :: jsstring
  editingUser :: "User option"
  errors :: ValidationErrors
  inAppNotifications :: "InAppNotification list"
  fcmToken :: jsstring
  db :: bool
  messagingAvailable :: bool
  permissionsGranted :: bool
  notificationChannelCreated :: bool
  trace :: "event list"
  idsDrawn :: nat

datatype 'a outcome = Returns 'a | Throws

type_synonym 'a prog = "world \<Rightarrow> 'a outcome \<times> world"

definition ret :: "'a \<Rightarrow> 'a prog" where
  "ret x = (\<lambda>w. (Returns x, w))"

definition skip :: "unit prog" where
  "skip = ret ()"

definition bind :: "'a prog \<Rightarrow> ('a \<Rightarrow> 'b prog) \<Rightarrow> 'b prog" where
  "bind m f = (\<lambda>w. case m w of (Returns x, w1) \<Rightarrow> f x w1 | (Throws, w1) \<Rightarrow> (Throws, w1))"

text \<open>A statement sequence: a throw skips the statements after it.\<close>

fun block :: "unit prog list \<Rightarrow> unit prog" where
  "block [] = skip"
| "block (m # ms) = bind m (\<lambda>_. block ms)"

definition tryCatch :: "unit prog \<Rightarrow> unit prog \<Rightarrow> unit prog" where
  "tryCatch body handler =
     (\<lambda>w. case body w of (Returns x, w1) \<Rightarrow> (Returns x, w1) | (Throws, w1) \<Rightarrow> handler w1)"

definition tryFinally :: "unit prog \<Rightarrow> unit prog \<Rightarrow> unit prog" where
  "tryFinally body fin =
     (\<lambda>w. case body w of (r, w1) \<Rightarrow>
        (case fin w1 of (Returns _, w2) \<Rightarrow> (r, w2) | (Throws, w2) \<Rightarrow> (Throws, w2)))"

definition ifThen :: "bool \<Rightarrow> unit prog \<Rightarrow> unit prog" where
  "ifThen b m = (if b then m else skip)"

definition emit :: "event \<Rightarrow> unit prog" where
  "emit e = (\<lambda>w. (Returns (), w\<lparr>trace := trace w @ [e]\<rparr>))"

text \<open>A call into a library: it is logged, and throws when the environment says so.\<close>

definition extern :: "event \<Rightarrow> bool \<Rightarrow> unit prog" where
  "extern e throws = (\<lambda>w. (if throws then Throws else Returns (), w\<lparr>trace := trace w @ [e]\<rparr>))"

definition newEvents :: "world \<Rightarrow> world \<Rightarrow> event list" where
  "newEvents w w' = drop (length (trace w)) (trace w')"

section \<open>NotificationService (App.tsx)\<close>

definition quoted :: "jsstring \<Rightarrow> jsstring" where
  "quoted s = [0x22] @ s @ [0x22]"

definition showFallbackNotification :: "env \<Rightarrow> jsstring \<Rightarrow> jsstring \<Rightarrow> unit prog" where
  "showFallbackNotification e title message =
     block
      [emit (Invoke (ShowFallbackNotification title message)),
       ifThen (platformOS e = Android)
         (tryCatch (extern (ToastShow (title @ js '': '' @ message)) (toastThrows e)) skip),
       tryCatch (extern (AlertAlert title message) (alertThrows e)) skip]"

definition vibrationMs :: "notifType \<Rightarrow> nat" where
  "vibrationMs ty = (if ty = Success then 100 else if ty = Warning then 200 else 50)"

definition notificationColor :: "notifType \<Rightarrow> jsstring" where
  "notificationColor ty =
     (if ty = Success then js ''#28a745'' else if ty = Warning then js ''#ffc107''
      else js ''#17a2b8'')"

definition showSystemNotification ::
  "env \<Rightarrow> jsstring \<Rightarrow> jsstring \<Rightarrow> notifType \<Rightarrow> unit prog" where
  "showSystemNotification e title message ty =
     block
      [emit (Invoke (ShowSystemNotification title message ty)),
       (\<lambda>w. if \<not> permissionsGranted w then showFallbackNotification e title message w
             else tryCatch
                    (block
                      [ifThen (platformOS e = Android)
                         (tryCatch (extern (VibrationVibrate (vibrationMs ty)) (vibrateThrows e))
                            skip),
                       extern (DisplayNotification title message (notificationColor ty))
                         (displayThrows e)])
                    (showFallbackNotification e title message) w)]"

text \<open>
  \<open>sendPushNotification\<close> has a third parameter \<open>senderToken\<close>; its only caller,
  \<open>notifyCRUDOperation\<close>, does not pass it, so the request carries none.
\<close>

definition sendPushNotification :: "env \<Rightarrow> operation \<Rightarrow> payload \<Rightarrow> unit prog" where
  "sendPushNotification e action userData =
     block
      [emit (Invoke (SendPushNotification action userData)),
       (\<lambda>w. if \<not> functionsModule e \<or> \<not> messagingAvailable w then skip w
             else tryCatch
                    (extern (HttpsCallable (js ''sendNotificationToAllUsers'') action userData)
                       (pushCallThrows e))
                    skip w)]"

definition sendEmailNotification :: "env \<Rightarrow> operation \<Rightarrow> payload \<Rightarrow> unit prog" where
  "sendEmailNotification e action userData =
     block
      [emit (Invoke (SendEmailNotification action userData)),
       (\<lambda>w. if \<not> functionsModule e then skip w
             else tryCatch
                    (extern (HttpsCallable (js ''sendEmailNotification'') action userData)
                       (emailCallThrows e))
                    skip w)]"

text \<open>
  Of the four texts built per operation only \<open>messages.system\<close> is used; the name is
  interpolated (\<open>undefined\<close> for the payload of a deletion, which carries no \<open>name\<close>).
\<close>

definition systemTitle :: "operation \<Rightarrow> jsstring" where
  "systemTitle operation =
     (if operation = CREATE then js ''User Added''
      else if operation = UPDATE then js ''User Updated'' else js ''User Deleted'')"

fun systemMessage :: "operation \<Rightarrow> payload \<Rightarrow> jsstring" where
  "systemMessage CREATE userData =
     js ''New user '' @ quoted (interpolate (payloadName userData)) @ js '' added to the system''"
| "systemMessage UPDATE userData =
     js ''User '' @ quoted (interpolate (payloadName userData))
       @ js '' information has been updated''"
| "systemMessage DELETE userData =
     js ''User '' @ quoted (interpolate (payloadName userData))
       @ js '' has been removed from the system''"

definition notifyCRUDOperation :: "env \<Rightarrow> operation \<Rightarrow> payload \<Rightarrow> bool \<Rightarrow> unit prog" where
  "notifyCRUDOperation e operation userData isLocalAction =
     block
      [showSystemNotification e (systemTitle operation) (systemMessage operation userData)
         Success,
       (\<lambda>w. if \<not> isLocalAction \<and> messagingAvailable w
             then block [sendPushNotification e operation userData,
                         sendEmailNotification e operation userData] w
             else skip w)]"

section \<open>In-app notification feed (App.tsx)\<close>

definition generateUniqueId :: "env \<Rightarrow> jsstring prog" where
  "generateUniqueId e = (\<lambda>w. (Returns (uniqueId e (idsDrawn w)), w\<lparr>idsDrawn := Suc (idsDrawn w)\<rparr>))"

text \<open>
  \<open>setInAppNotifications(prev => [notification, ...prev.slice(0, 4)])\<close>, then the timer
  that removes the entry after 5000 ms.
\<close>

definition addInAppNotification :: "env \<Rightarrow> jsstring \<Rightarrow> notifType \<Rightarrow> unit prog" where
  "addInAppNotification e message ty =
     bind (generateUniqueId e) (\<lambda>i.
       block
        [(\<lambda>w. (Returns (),
                w\<lparr>inAppNotifications :=
                     \<lparr>n_id = i, n_message = message, n_type = ty, n_timestamp = now e\<rparr>
                       # take 4 (inAppNotifications w)\<rparr>)),
         emit (SetTimeout i 5000)])"

text \<open>The timer's callback and \<open>removeInAppNotification\<close> run the same update.\<close>

definition timerFired :: "jsstring \<Rightarrow> world \<Rightarrow> world" where
  "timerFired i w = w\<lparr>inAppNotifications := filter (\<lambda>n. n_id n \<noteq> i) (inAppNotifications w)\<rparr>"

definition removeInAppNotification :: "jsstring \<Rightarrow> world \<Rightarrow> world" where
  "removeInAppNotification i w =
     w\<lparr>inAppNotifications := filter (\<lambda>n. n_id n \<noteq> i) (inAppNotifications w)\<rparr>"

datatype feedAction =
    Push jsstring notifType
  | Dismiss jsstring
  | Expire jsstring

fun feedStep :: "env \<Rightarrow> world \<Rightarrow> feedAction \<Rightarrow> world" where
  "feedStep e w (Push message ty) = snd (addInAppNotification e message ty w)"
| "feedStep e w (Dismiss i) = removeInAppNotification i w"
| "feedStep e w (Expire i) = timerFired i w"

section \<open>Form validation and the CRUD handlers (App.tsx)\<close>

definition validateForm :: "bool prog" where
  "validateForm =
     (\<lambda>w. let nameError = validateName (name w);
               emailError = validateEmail (email w);
               ageError = validateAge (age w);
               newErrors =
                 \<lparr>e_name = (if truthy nameError then nameError else None),
                  e_email = (if truthy emailError then emailError else None),
                  e_age = (if truthy ageError then ageError else None)\<rparr>
           in (Returns (e_name newErrors = None \<and> e_email newErrors = None
                        \<and> e_age newErrors = None),
               w\<lparr>errors := newErrors\<rparr>))"

definition noErrors :: ValidationErrors where
  "noErrors = \<lparr>e_name = None, e_email = None, e_age = None\<rparr>"

definition setUsers :: "(User list \<Rightarrow> User list) \<Rightarrow> unit prog" where
  "setUsers f = (\<lambda>w. (Returns (), w\<lparr>users := f (users w), trace := trace w @ [SetUsers]\<rparr>))"

definition setSubmitting :: "bool \<Rightarrow> unit prog" where
  "setSubmitting b = (\<lambda>w. (Returns (), w\<lparr>submitting := b\<rparr>))"

definition clearForm :: "unit prog" where
  "clearForm = (\<lambda>w. (Returns (), w\<lparr>name := [], email := [], age := [], errors := noErrors\<rparr>))"

definition setEditingUser :: "User option \<Rightarrow> unit prog" where
  "setEditingUser u = (\<lambda>w. (Returns (), w\<lparr>editingUser := u\<rparr>))"

definition setLoading :: "bool \<Rightarrow> unit prog" where
  "setLoading b = (\<lambda>w. (Returns (), w\<lparr>loading := b\<rparr>))"


definition onSnapshotError :: "world \<Rightarrow> world" where
  "onSnapshotError w = snd (setLoading False w)"

text \<open>
  An \<open>await\<close>: the call is made, the handler is suspended, and what the other callbacks
  (the snapshot listener, a timer, another handler) did to the state meanwhile is in
  place when the handler resumes, with the call's result or its exception.
\<close>

definition awaiting :: "(world \<Rightarrow> world) \<Rightarrow> 'a prog \<Rightarrow> 'a prog" where
  "awaiting others m = (\<lambda>w. case m w of (r, w1) \<Rightarrow> (r, others w1))"

definition collectionAdd :: "env \<Rightarrow> UserData \<Rightarrow> timestamp \<Rightarrow> jsstring prog" where
  "collectionAdd e userData createdAt =
     (\<lambda>w. (case addResult e of None \<Rightarrow> Throws | Some i \<Rightarrow> Returns i,
            w\<lparr>trace := trace w @ [CollectionAdd userData createdAt]\<rparr>))"

text \<open>\<open>{ id, ...userData }\<close> with \<open>userData = { name, email, age, fcmToken, createdAt }\<close>.\<close>

definition mkUser :: "jsstring \<Rightarrow> UserData \<Rightarrow> timestamp \<Rightarrow> User" where
  "mkUser i userData createdAt =
     \<lparr>u_id = i, u_name = d_name userData, u_email = d_email userData, u_age = d_age userData,
      u_createdAt = Some createdAt, u_fcmToken = Some (d_fcmToken userData)\<rparr>"

text \<open>\<open>{ ...user, ...updatedData }\<close>\<close>

definition mergeUser :: "User \<Rightarrow> UserData \<Rightarrow> User" where
  "mergeUser user updatedData =
     user\<lparr>u_name := d_name updatedData, u_email := d_email updatedData,
          u_age := d_age updatedData, u_fcmToken := Some (d_fcmToken updatedData)\<rparr>"

definition formData :: "world \<Rightarrow> UserData" where
  "formData w =
     \<lparr>d_name = trim (name w), d_email = trim (email w), d_age = trim (age w),
      d_fcmToken = fcmToken w\<rparr>"

definition loudspeaker :: jsstring where
  "loudspeaker = [0xD83D, 0xDCE2]"

definition crossMark :: jsstring where
  "crossMark = [0x274C]"

text \<open>
  A handler runs on the render \<open>w0\<close> whose closure it holds: \<open>users\<close>, \<open>name\<close>,
  \<open>email\<close>, \<open>age\<close>, \<open>fcmToken\<close>, \<open>editingUser\<close> and \<open>db\<close> are read from \<open>w0\<close>
  throughout, while the setters act on the current state. Of the statements in a
  \<open>try\<close> block the store call is the one that can throw; the notification service
  catches its own failures, as \<open>notifyCRUDOperation_run\<close> proves.

  \<open>addUser\<close> awaits twice: the store's \<open>add\<close> (with the store only) and
  \<open>notifyCRUDOperation\<close>. \<open>addUserAwaiting\<close> takes what the other callbacks do to the
  state during each of the two suspensions; \<open>addUser\<close> is the run in which nothing is
  delivered meanwhile. \<open>updateUser\<close> and \<open>deleteUser\<close> are given for that run only.
\<close>

definition addUserAwaiting ::
  "env \<Rightarrow> (world \<Rightarrow> world) \<Rightarrow> (world \<Rightarrow> world) \<Rightarrow> unit prog" where
  "addUserAwaiting e duringAdd duringNotify = (\<lambda>w0.
     bind validateForm (\<lambda>valid.
       if \<not> valid then
         block
          [showFallbackNotification e (js ''Validation Error'')
             (js ''Please fix the validation errors''),
           addInAppNotification e (js ''Please fix the validation errors'') Warning]
       else
         block
          [setSubmitting True,
           tryFinally
             (tryCatch
                (let userData = formData w0;
                     createdAt = (if db w0 then ServerTimestamp else ClientDate (now e))
                 in bind
                      (if db w0 then
                         bind (awaiting duringAdd (collectionAdd e userData createdAt))
                           (\<lambda>docId.
                             bind (awaiting duringNotify
                                     (notifyCRUDOperation e CREATE
                                        (CreatePayload (mkUser docId userData createdAt)) False))
                               (\<lambda>_. ret (mkUser docId userData createdAt)))
                       else
                         bind (generateUniqueId e) (\<lambda>i.
                           bind (awaiting duringNotify
                                   (notifyCRUDOperation e CREATE
                                      (CreatePayload (mkUser i userData createdAt)) True))
                             (\<lambda>_. ret (mkUser i userData createdAt))))
                      (\<lambda>newUser.
                         block
                          [setUsers (\<lambda>prev. newUser # prev),
                           clearForm,
                           ifThen (length (users w0) > 0)
                             (addInAppNotification e
                                (loudspeaker @ js '' Notification: New user ''
                                   @ quoted (d_name userData) @ js '' added to the system'')
                                Info)]))
                (block
                  [showFallbackNotification e (js ''Error'')
                     (js ''Failed to add user. Please try again.''),
                   addInAppNotification e
                     (crossMark @ js '' Failed to add user. Please try again.'') Warning]))
             (setSubmitting False)]) w0)"

definition addUser :: "env \<Rightarrow> unit prog" where
  "addUser e = addUserAwaiting e (\<lambda>w. w) (\<lambda>w. w)"

definition updateUser :: "env \<Rightarrow> unit prog" where
  "updateUser e = (\<lambda>w0.
     case editingUser w0 of
       None \<Rightarrow> skip w0
     | Some editing \<Rightarrow>
         bind validateForm (\<lambda>valid.
           if \<not> valid then
             block
              [showFallbackNotification e (js ''Validation Error'')
                 (js ''Please fix the validation errors''),
               addInAppNotification e (js ''Please fix the validation errors'') Warning]
           else
             block
              [setSubmitting True,
               tryFinally
                 (tryCatch
                    (let updatedData = formData w0
                     in block
                         [if db w0 then
                            block
                             [extern (DocUpdate (u_id editing) updatedData) (updateThrows e),
                              notifyCRUDOperation e UPDATE
                                (UpdatePayload updatedData (u_id editing) (Some editing)) False]
                          else
                            block
                             [setUsers (map (\<lambda>user. if u_id user = u_id editing
                                                     then mergeUser user updatedData else user)),
                              notifyCRUDOperation e UPDATE
                                (UpdatePayload updatedData (u_id editing) None) True],
                          setEditingUser None,
                          clearForm,
                          ifThen (length (users w0) > 1)
                            (addInAppNotification e
                               (loudspeaker @ js '' Notification: User ''
                                  @ quoted (d_name updatedData)
                                  @ js '' information has been updated'')
                               Info)])
                    (block
                      [showFallbackNotification e (js ''Error'')
                         (js ''Failed to update user. Please try again.''),
                       addInAppNotification e
                         (crossMark @ js '' Failed to update user. Please try again.'')
                         Warning]))
                 (setSubmitting False)]) w0)"

text \<open>
  \<open>deleteUser\<close> only opens the confirmation dialog; the work is in the \<open>onPress\<close> of
  its Delete button. The button the user presses is an input.
\<close>

datatype alertButton = PressCancel | PressDelete

definition deleteOnPress :: "env \<Rightarrow> jsstring \<Rightarrow> world \<Rightarrow> unit prog" where
  "deleteOnPress e userId w0 =
     tryCatch
       (let userToDelete = find (\<lambda>user. u_id user = userId) (users w0)
        in block
            [if db w0 then
               block
                [extern (DocDelete userId) (deleteThrows e),
                 case userToDelete of
                   None \<Rightarrow> skip
                 | Some u \<Rightarrow> notifyCRUDOperation e DELETE (DeletePayload userId u) False]
             else
               block
                [setUsers (filter (\<lambda>user. u_id user \<noteq> userId)),
                 case userToDelete of
                   None \<Rightarrow> skip
                 | Some u \<Rightarrow> notifyCRUDOperation e DELETE (DeletePayload userId u) True],
             ifThen (length (users w0) > 1)
               (addInAppNotification e
                  (loudspeaker @ js '' Notification: User ''
                     @ quoted (case userToDelete of
                                 None \<Rightarrow> js ''User''
                               | Some u \<Rightarrow> if u_name u \<noteq> [] then u_name u else js ''User'')
                     @ js '' has been removed from the system'')
                  Info)])
       (block
         [showFallbackNotification e (js ''Error'')
            (js ''Failed to delete user. Please try again.''),
          addInAppNotification e
            (crossMark @ js '' Failed to delete user. Please try again.'') Warning])"

definition deleteUser :: "env \<Rightarrow> jsstring \<Rightarrow> alertButton \<Rightarrow> unit prog" where
  "deleteUser e userId pressed = (\<lambda>w0.
     block
      [emit ConfirmDelete,
       case pressed of PressCancel \<Rightarrow> skip | PressDelete \<Rightarrow> deleteOnPress e userId w0] w0)"

section \<open>The callable function sendNotificationToAllUsers (functions/src/index.ts)\<close>

text \<open>
  Of a user document the function reads \<open>fcmToken\<close>; of the request's \<open>userData\<close> it
  reads \<open>name\<close>, \<open>id\<close> and \<open>deletedUser.name\<close>. A missing field is \<open>None\<close>.
\<close>

record userDoc =
  doc_fcmToken :: "jsstring option"

record deletedUserRef =
  du_name :: "jsstring option"

record requestUser =
  r_name :: "jsstring option"
  r_id :: "jsstring option"
  r_deletedUser :: "deletedUserRef option"

record request =
  rq_action :: "jsstring option"
  rq_userData :: "requestUser option"
  rq_senderToken :: "jsstring option"

record multicastMessage =
  m_title :: jsstring
  m_body :: jsstring
  m_action :: "jsstring option"
  m_userId :: jsstring
  m_timestamp :: nat
  m_tokens :: "jsstring list"

record response =
  rs_success :: bool
  rs_message :: "jsstring option"
  rs_successCount :: "nat option"
  rs_failureCount :: "nat option"

datatype httpsError = HttpsError jsstring jsstring

text \<open>
  The store's answer to \<open>db.collection('users').get()\<close> and the messaging service's
  answer to \<open>sendMulticast\<close>; \<open>None\<close> is a rejected promise.
\<close>

record cloudEnv =
  usersSnapshot :: "userDoc list option"
  sendMulticast :: "multicastMessage \<Rightarrow> (nat \<times> nat) option"
  dateNow :: nat

text \<open>The \<open>forEach\<close> over the snapshot, pushing each token that is set and not the sender's.\<close>

fun collectTokens :: "jsstring option \<Rightarrow> userDoc list \<Rightarrow> jsstring list" where
  "collectTokens senderToken [] = []"
| "collectTokens senderToken (d # ds) =
     (case doc_fcmToken d of
        None \<Rightarrow> collectTokens senderToken ds
      | Some t \<Rightarrow>
          if t \<noteq> [] \<and> Some t \<noteq> senderToken then t # collectTokens senderToken ds
          else collectTokens senderToken ds)"

text \<open>
  The \<open>switch\<close> on the action tag. Reading a property of \<open>undefined\<close> throws a
  \<open>TypeError\<close>: the result is \<open>None\<close> then.
\<close>

definition buildNotification ::
  "jsstring option \<Rightarrow> requestUser option \<Rightarrow> (jsstring \<times> jsstring) option" where
  "buildNotification action userData =
     (if action = Some (js ''CREATE'') then
        (case userData of
           None \<Rightarrow> None
         | Some u \<Rightarrow>
             Some (js ''New User Added'',
                   interpolate (r_name u) @ js '' has been added to the system''))
      else if action = Some (js ''UPDATE'') then
        (case userData of
           None \<Rightarrow> None
         | Some u \<Rightarrow>
             Some (js ''User Updated'',
                   interpolate (r_name u) @ [0x27] @ js ''s information has been updated''))
      else if action = Some (js ''DELETE'') then
        (case userData of
           None \<Rightarrow> None
         | Some u \<Rightarrow>
             (case r_deletedUser u of
                None \<Rightarrow> None
              | Some du \<Rightarrow>
                  Some (js ''User Deleted'',
                        interpolate (du_name du) @ js '' has been removed from the system'')))
      else Some (js ''System Update'', js ''A change has been made to the user database''))"

text \<open>
  The message object: \<open>userData.id || ''\<close> is read here, which throws as well when
  \<open>userData\<close> is \<open>undefined\<close>. \<open>Date.now().toString()\<close> is kept as the number.
\<close>

definition buildMessage ::
  "cloudEnv \<Rightarrow> request \<Rightarrow> jsstring list \<Rightarrow> multicastMessage option" where
  "buildMessage ce d tokens =
     (case buildNotification (rq_action d) (rq_userData d) of
        None \<Rightarrow> None
      | Some (title, body) \<Rightarrow>
          (case rq_userData d of
             None \<Rightarrow> None
           | Some u \<Rightarrow>
               Some \<lparr>m_title = title, m_body = body, m_action = rq_action d,
                     m_userId = (case r_id u of None \<Rightarrow> [] | Some i \<Rightarrow> i),
                     m_timestamp = dateNow ce, m_tokens = tokens\<rparr>))"

definition internalError :: httpsError where
  "internalError = HttpsError (js ''internal'') (js ''Failed to send notification'')"

definition noUsersToNotify :: response where
  "noUsersToNotify =
     \<lparr>rs_success = False, rs_message = Some (js ''No users to notify''),
      rs_successCount = None, rs_failureCount = None\<rparr>"

definition sent :: "nat \<Rightarrow> nat \<Rightarrow> response" where
  "sent successCount failureCount =
     \<lparr>rs_success = True, rs_message = None, rs_successCount = Some successCount,
      rs_failureCount = Some failureCount\<rparr>"

text \<open>
  The result pairs the multicast messages handed to the messaging service with what the
  caller gets: \<open>Inl\<close> is the \<open>HttpsError\<close> thrown from the \<open>catch\<close> around the whole
  body, \<open>Inr\<close> the returned object. \<open>data\<close> is \<open>None\<close> when the caller sent \<open>null\<close>
  (destructuring it throws).
\<close>

definition sendNotificationToAllUsers ::
  "cloudEnv \<Rightarrow> request option \<Rightarrow> multicastMessage list \<times> (httpsError + response)" where
  "sendNotificationToAllUsers ce data =
     (case data of
        None \<Rightarrow> ([], Inl internalError)
      | Some d \<Rightarrow>
          (case usersSnapshot ce of
             None \<Rightarrow> ([], Inl internalError)
           | Some docs \<Rightarrow>
               let tokens = collectTokens (rq_senderToken d) docs
               in if length tokens = 0 then ([], Inr noUsersToNotify)
                  else
                    (case buildMessage ce d tokens of
                       None \<Rightarrow> ([], Inl internalError)
                     | Some message \<Rightarrow>
                         (case sendMulticast ce message of
                            None \<Rightarrow> ([message], Inl internalError)
                          | Some (successCount, failureCount) \<Rightarrow>
                              ([message], Inr (sent successCount failureCount))))))"

section \<open>Traces of the notification service\<close>

text \<open>
  The events one call of each method of the service adds to the trace, as functions of
  the environment and of the service's flags. The lemmas \<open>*_run\<close> below prove that the
  methods add exactly these events, change nothing else and never throw.
\<close>

definition fallbackTrace :: "env \<Rightarrow> jsstring \<Rightarrow> jsstring \<Rightarrow> event list" where
  "fallbackTrace e title message =
     Invoke (ShowFallbackNotification title message)
       # (if platformOS e = Android then [ToastShow (title @ js '': '' @ message)] else [])
       @ [AlertAlert title message]"

definition systemTrace ::
  "env \<Rightarrow> bool \<Rightarrow> jsstring \<Rightarrow> jsstring \<Rightarrow> notifType \<Rightarrow> event list" where
  "systemTrace e granted title message ty =
     Invoke (ShowSystemNotification title message ty)
       # (if \<not> granted then fallbackTrace e title message
          else (if platformOS e = Android then [VibrationVibrate (vibrationMs ty)] else [])
               @ [DisplayNotification title message (notificationColor ty)]
               @ (if displayThrows e then fallbackTrace e title message else []))"

definition pushTrace :: "env \<Rightarrow> bool \<Rightarrow> operation \<Rightarrow> payload \<Rightarrow> event list" where
  "pushTrace e avail action userData =
     Invoke (SendPushNotification action userData)
       # (if functionsModule e \<and> avail
          then [HttpsCallable (js ''sendNotificationToAllUsers'') action userData] else [])"

definition emailTrace :: "env \<Rightarrow> operation \<Rightarrow> payload \<Rightarrow> event list" where
  "emailTrace e action userData =
     Invoke (SendEmailNotification action userData)
       # (if functionsModule e
          then [HttpsCallable (js ''sendEmailNotification'') action userData] else [])"

definition notifyTrace ::
  "env \<Rightarrow> world \<Rightarrow> operation \<Rightarrow> payload \<Rightarrow> bool \<Rightarrow> event list" where
  "notifyTrace e w operation userData isLocalAction =
     systemTrace e (permissionsGranted w) (systemTitle operation)
         (systemMessage operation userData) Success
       @ (if \<not> isLocalAction \<and> messagingAvailable w
          then pushTrace e True operation userData @ emailTrace e operation userData else [])"

text \<open>Classes of events, for statements about a trace.\<close>

fun isGatewayCall :: "event \<Rightarrow> bool" where
  "isGatewayCall (Invoke (ShowSystemNotification t m ty)) = True"
| "isGatewayCall ev = False"

fun isPushDispatch :: "event \<Rightarrow> bool" where
  "isPushDispatch (Invoke (SendPushNotification a u)) = True"
| "isPushDispatch ev = False"

fun isEmailDispatch :: "event \<Rightarrow> bool" where
  "isEmailDispatch (Invoke (SendEmailNotification a u)) = True"
| "isEmailDispatch ev = False"

fun isStoreCall :: "event \<Rightarrow> bool" where
  "isStoreCall (CollectionAdd d t) = True"
| "isStoreCall (DocUpdate i d) = True"
| "isStoreCall (DocDelete i) = True"
| "isStoreCall ev = False"


text \<open>The events of a trace that come before the visible list is first updated.\<close>

definition beforeListUpdate :: "event list \<Rightarrow> event list" where
  "beforeListUpdate es = takeWhile (\<lambda>ev. ev \<noteq> SetUsers) es"

section \<open>Concrete states\<close>

text \<open>The component's state at its first render, and an environment in which nothing fails.\<close>

definition initialWorld :: world where
  "initialWorld =
     \<lparr>users = [], loading = True, submitting = False, name = [], email = [], age = [],
      editingUser = None,
      errors = noErrors, inAppNotifications = [], fcmToken = [], db = False,
      messagingAvailable = False, permissionsGranted = False,
      notificationChannelCreated = False, trace = [], idsDrawn = 0\<rparr>"

definition quietEnv :: env where
  "quietEnv =
     \<lparr>platformOS = Android, functionsModule = True, toastThrows = False, alertThrows = False,
      vibrateThrows = False, displayThrows = False, pushCallThrows = False,
      emailCallThrows = False, addResult = Some (js ''d1''), updateThrows = False,
      deleteThrows = False, uniqueId = (\<lambda>k. replicate (Suc k) 0x75), now = 7\<rparr>"

definition filledForm :: world where
  "filledForm = initialWorld\<lparr>name := js ''Al'', email := js ''a@b.c'', age := js ''36''\<rparr>"

definition ada :: User where
  "ada = \<lparr>u_id = js ''k'', u_name = js ''Ada'', u_email = js ''ada@x.com'', u_age = js ''36'',
          u_createdAt = Some ServerTimestamp, u_fcmToken = Some []\<rparr>"

definition sixPushes :: "feedAction list" where
  "sixPushes = [Push (js ''a'') Info, Push (js ''b'') Info, Push (js ''c'') Success,
                Push (js ''d'') Info, Push (js ''e'') Warning, Push (js ''f'') Info]"

definition threeBanners :: world where
  "threeBanners =
     foldl (feedStep quietEnv) initialWorld
       [Push (js ''a'') Info, Push (js ''b'') Info, Push (js ''c'') Success]"

definition remoteForm :: world where
  "remoteForm = filledForm\<lparr>users := [ada], db := True\<rparr>"


definition messagingWorld :: world where
  "messagingWorld = initialWorld\<lparr>messagingAvailable := True\<rparr>"

definition editingWorld :: world where
  "editingWorld = remoteForm\<lparr>editingUser := Some ada\<rparr>"


definition noisyEnv :: env where
  "noisyEnv =
     quietEnv\<lparr>toastThrows := True, alertThrows := True, vibrateThrows := True,
              displayThrows := True, pushCallThrows := True, emailCallThrows := True\<rparr>"

definition liveWorld :: world where
  "liveWorld = editingWorld\<lparr>messagingAvailable := True, permissionsGranted := True\<rparr>"

text \<open>A store with four user documents, and a request from the device with token \<open>me\<close>.\<close>

definition fourDocs :: "userDoc list" where
  "fourDocs =
     [\<lparr>doc_fcmToken = Some (js ''t1'')\<rparr>, \<lparr>doc_fcmToken = Some (js ''me'')\<rparr>,
      \<lparr>doc_fcmToken = None\<rparr>, \<lparr>doc_fcmToken = Some []\<rparr>]"

definition cloudOk :: cloudEnv where
  "cloudOk =
     \<lparr>usersSnapshot = Some fourDocs,
      sendMulticast = (\<lambda>m. Some (length (m_tokens m), 0)),
      dateNow = 7\<rparr>"

definition cloudAlone :: cloudEnv where
  "cloudAlone = cloudOk\<lparr>usersSnapshot := Some [\<lparr>doc_fcmToken = Some (js ''me'')\<rparr>]\<rparr>"

definition cloudSendFails :: cloudEnv where
  "cloudSendFails = cloudOk\<lparr>sendMulticast := (\<lambda>m. None)\<rparr>"

definition createRequest :: request where
  "createRequest =
     \<lparr>rq_action = Some (js ''CREATE''),
      rq_userData = Some \<lparr>r_name = Some (js ''Al''), r_id = Some (js ''d1''),
                          r_deletedUser = None\<rparr>,
      rq_senderToken = Some (js ''me'')\<rparr>"

definition createMessage :: multicastMessage where
  "createMessage =
     \<lparr>m_title = js ''New User Added'', m_body = js ''Al has been added to the system'',
      m_action = Some (js ''CREATE''), m_userId = js ''d1'', m_timestamp = 7,
      m_tokens = [js ''t1'']\<rparr>"

section \<open>The combinators and the service's methods\<close>

lemmas prog_defs =
  ret_def skip_def bind_def tryCatch_def tryFinally_def ifThen_def emit_def extern_def

lemma showFallbackNotification_run:
  "showFallbackNotification e t m w = (Returns (), w\<lparr>trace := trace w @ fallbackTrace e t m\<rparr>)"
  by (simp add: showFallbackNotification_def fallbackTrace_def prog_defs)

lemma showSystemNotification_run:
  "showSystemNotification e t m ty w =
     (Returns (), w\<lparr>trace := trace w @ systemTrace e (permissionsGranted w) t m ty\<rparr>)"
  by (simp add: showSystemNotification_def systemTrace_def showFallbackNotification_run prog_defs)

lemma sendPushNotification_run:
  "sendPushNotification e a u w =
     (Returns (), w\<lparr>trace := trace w @ pushTrace e (messagingAvailable w) a u\<rparr>)"
  by (simp add: sendPushNotification_def pushTrace_def prog_defs)

lemma sendEmailNotification_run:
  "sendEmailNotification e a u w = (Returns (), w\<lparr>trace := trace w @ emailTrace e a u\<rparr>)"
  by (simp add: sendEmailNotification_def emailTrace_def prog_defs)

lemma notifyCRUDOperation_run:
  "notifyCRUDOperation e operation u isLocal w =
     (Returns (), w\<lparr>trace := trace w @ notifyTrace e w operation u isLocal\<rparr>)"
  by (simp add: notifyCRUDOperation_def notifyTrace_def showSystemNotification_run
      sendPushNotification_run sendEmailNotification_run prog_defs)

lemma addInAppNotification_run:
  "addInAppNotification e m ty w =
     (Returns (),
      w\<lparr>idsDrawn := Suc (idsDrawn w),
        inAppNotifications :=
          \<lparr>n_id = uniqueId e (idsDrawn w), n_message = m, n_type = ty, n_timestamp = now e\<rparr>
            # take 4 (inAppNotifications w),
        trace := trace w @ [SetTimeout (uniqueId e (idsDrawn w)) 5000]\<rparr>)"
  by (simp add: addInAppNotification_def generateUniqueId_def prog_defs)

section \<open>Validation\<close>

text \<open>
  The matcher on the shapes the two patterns use: a class repeated one or more times
  matches the non-empty strings over the class. So \<open>validateName\<close> accepts exactly the
  names of 2 to 50 code units (after trimming) made of ASCII letters and white space.
\<close>

lemma test_Fail: "test Fail cs = False"
  by (induction cs) simp_all

lemma test_Then_Fail: "test (Then Fail r) cs = False"
  by (induction cs) simp_all

lemma test_Or: "test (Or r s) cs \<longleftrightarrow> test r cs \<or> test s cs"
  by (induction cs arbitrary: r s) simp_all

lemma test_Many_Class: "test (Then Empty (Many (Class P))) cs \<longleftrightarrow> list_all P cs"
  by (induction cs) (simp_all add: test_Or test_Then_Fail)

lemma test_Many1_Class: "test (Many1 (Class P)) cs \<longleftrightarrow> cs \<noteq> [] \<and> list_all P cs"
  by (cases cs) (simp_all add: test_Many_Class test_Then_Fail)

lemma validateName_accepts_iff:
  "validateName s = None \<longleftrightarrow>
     2 \<le> length (trim s) \<and> length (trim s) \<le> 50 \<and> list_all nameChar (trim s)"
  by (auto simp add: validateName_def nameRegex_def test_Many1_Class)

lemma emailRegex_samples:
  "test emailRegex (js ''a@b.c'')" "\<not> test emailRegex (js ''a@b'')"
  "\<not> test emailRegex (js ''a@@b.c'')" "\<not> test emailRegex (js ''a b@c.d'')"
  "test emailRegex (js ''a@b.c.d'')"
  by code_simp+

text \<open>Every error message is a non-empty string, so \<open>if (nameError)\<close> tests definedness.\<close>

lemma validateName_truthy:
  "(if truthy (validateName s) then validateName s else None) = validateName s"
  by (simp add: validateName_def truthy_def js_def)

lemma validateEmail_truthy:
  "(if truthy (validateEmail s) then validateEmail s else None) = validateEmail s"
  by (simp add: validateEmail_def truthy_def js_def)

lemma validateAge_truthy:
  "(if truthy (validateAge s) then validateAge s else None) = validateAge s"
  by (simp add: validateAge_def truthy_def js_def split: option.split)

lemma validateForm_run:
  "validateForm w =
     (Returns (validateName (name w) = None \<and> validateEmail (email w) = None
               \<and> validateAge (age w) = None),
      w\<lparr>errors := \<lparr>e_name = validateName (name w), e_email = validateEmail (email w),
                    e_age = validateAge (age w)\<rparr>\<rparr>)"
  by (simp add: validateForm_def Let_def validateName_truthy validateEmail_truthy
      validateAge_truthy)

lemma sample_fields_valid:
  "validateName (js ''Al'') = None" "validateEmail (js ''a@b.c'') = None"
  "validateAge (js ''36'') = None"
  by code_simp+

text \<open>When \<open>validateAge\<close> fails, in terms of what \<open>parseInt\<close> reads.\<close>

lemma validateAge_fails_iff:
  "validateAge s \<noteq> None \<longleftrightarrow>
     trim s = [] \<or> parseInt (trim s) = None
       \<or> (\<exists>n. parseInt (trim s) = Some n \<and> (n < 1 \<or> 120 < n))"
  by (auto simp: validateAge_def split: option.splits)

text \<open>
  C1. The claim: \<open>validateAge\<close> fails for every non-numeric string. The code accepts a
  string that is not a number as soon as it starts with digits of a value in 1..120,
  because \<open>parseInt\<close> reads the longest numeric prefix and ignores the rest: the age
  \<open>12abc\<close> passes (and is stored as it was typed), as do \<open>0x1F\<close> and \<open>3.9\<close>.
\<close>

theorem validateAge_accepts_non_numeric:
  "validateAge (js ''12abc'') = None \<and> validateAge (js ''0x1F'') = None
     \<and> validateAge (js ''3.9'') = None"
  by code_simp

text \<open>
  C9. \<open>validateForm\<close> returns true exactly when each of \<open>validateName\<close>,
  \<open>validateEmail\<close> and \<open>validateAge\<close> accepts its own field of the current form, and it
  stores the three results as the new error set, changing nothing else.
\<close>

theorem validateForm_iff_validators:
  "(\<exists>b. fst (validateForm w) = Returns b \<and>
        (b \<longleftrightarrow> validateName (name w) = None \<and> validateEmail (email w) = None
               \<and> validateAge (age w) = None)) \<and>
   snd (validateForm w) =
     w\<lparr>errors := \<lparr>e_name = validateName (name w), e_email = validateEmail (email w),
                   e_age = validateAge (age w)\<rparr>\<rparr>"
  by (simp add: validateForm_run)

theorem validateForm_iff_validators_witness:
  "fst (validateForm filledForm) = Returns True \<and>
   errors (snd (validateForm filledForm)) = noErrors \<and>
   fst (validateForm (filledForm\<lparr>age := js ''0''\<rparr>)) = Returns False \<and>
   e_age (errors (snd (validateForm (filledForm\<lparr>age := js ''0''\<rparr>))))
     = Some (js ''Age must be between 1 and 120'')"
proof -
  have bad: "validateAge (js ''0'') = Some (js ''Age must be between 1 and 120'')"
    by code_simp
  show ?thesis
    using validateForm_iff_validators [of filledForm]
      validateForm_iff_validators [of "filledForm\<lparr>age := js ''0''\<rparr>"]
      sample_fields_valid bad
    by (auto simp add: filledForm_def initialWorld_def noErrors_def)
qed

lemmas run_simps =
  showFallbackNotification_run notifyCRUDOperation_run addInAppNotification_run validateForm_run

lemmas handler_defs =
  setUsers_def setSubmitting_def clearForm_def setEditingUser_def collectionAdd_def
  generateUniqueId_def

lemmas trace_defs =
  notifyTrace_def systemTrace_def pushTrace_def emailTrace_def fallbackTrace_def

section \<open>The in-app notification feed\<close>

lemma feedStep_length:
  "length (inAppNotifications w) \<le> 5 \<Longrightarrow> length (inAppNotifications (feedStep e w a)) \<le> 5"
  by (cases a) (simp_all add: addInAppNotification_run removeInAppNotification_def
      timerFired_def le_trans [OF length_filter_le])

lemma feed_bounded_from:
  "length (inAppNotifications w) \<le> 5 \<Longrightarrow>
   length (inAppNotifications (foldl (feedStep e) w acts)) \<le> 5"
  by (induction acts arbitrary: w) (simp_all add: feedStep_length)

text \<open>
  C2. Whatever sequence of pushes, dismissals and timer expiries runs from the first
  render, the feed holds at most 5 entries; a push puts the new entry in front of the 4
  most recent entries and drops the older ones.
\<close>

theorem feed_never_exceeds_five:
  "length (inAppNotifications (foldl (feedStep e) initialWorld acts)) \<le> 5 \<and>
   inAppNotifications (feedStep e w (Push m ty)) =
     \<lparr>n_id = uniqueId e (idsDrawn w), n_message = m, n_type = ty, n_timestamp = now e\<rparr>
       # take 4 (inAppNotifications w) \<and>
   length (inAppNotifications (feedStep e w (Push m ty))) \<le> 5"
proof -
  have "length (inAppNotifications initialWorld) \<le> 5"
    by (simp add: initialWorld_def)
  then have "length (inAppNotifications (foldl (feedStep e) initialWorld acts)) \<le> 5"
    by (rule feed_bounded_from)
  then show ?thesis
    by (simp add: addInAppNotification_run)
qed

theorem feed_never_exceeds_five_witness:
  "map n_message (inAppNotifications (foldl (feedStep quietEnv) initialWorld sixPushes))
     = [js ''f'', js ''e'', js ''d'', js ''c'', js ''b''] \<and>
   length (inAppNotifications (foldl (feedStep quietEnv) initialWorld sixPushes)) \<le> 5"
  using feed_never_exceeds_five [of quietEnv sixPushes initialWorld "js ''a''" Info]
  by (simp add: sixPushes_def addInAppNotification_run initialWorld_def)

text \<open>
  C10. Dismissing \<open>i\<close> leaves no entry with identifier \<open>i\<close>, keeps every other entry as
  often as it occurred and in the order it had, changes nothing when no entry carries
  \<open>i\<close>, and done twice is the same as done once.
\<close>

theorem removeInAppNotification_exact:
  "(\<forall>n \<in> set (inAppNotifications (removeInAppNotification i w)). n_id n \<noteq> i) \<and>
   (\<forall>n. n_id n \<noteq> i \<longrightarrow>
      count_list (inAppNotifications (removeInAppNotification i w)) n
        = count_list (inAppNotifications w) n) \<and>
   subseq (inAppNotifications (removeInAppNotification i w)) (inAppNotifications w) \<and>
   ((\<forall>n \<in> set (inAppNotifications w). n_id n \<noteq> i) \<longrightarrow> removeInAppNotification i w = w) \<and>
   removeInAppNotification i (removeInAppNotification i w) = removeInAppNotification i w"
proof -
  have count: "n_id n \<noteq> i \<Longrightarrow> count_list (filter (\<lambda>n. n_id n \<noteq> i) xs) n = count_list xs n"
    for n :: InAppNotification and xs
    by (induction xs) auto
  have noop: "\<forall>n \<in> set (inAppNotifications w). n_id n \<noteq> i \<Longrightarrow> removeInAppNotification i w = w"
    by (simp add: removeInAppNotification_def filter_id_conv)
  show ?thesis
    using count noop by (simp add: removeInAppNotification_def)
qed

theorem removeInAppNotification_exact_witness:
  "map n_message (inAppNotifications (removeInAppNotification (js ''uu'') threeBanners))
     = [js ''c'', js ''a''] \<and>
   list_all (\<lambda>n. n_id n \<noteq> js ''x'') (inAppNotifications threeBanners) \<and>
   removeInAppNotification (js ''x'') threeBanners = threeBanners"
proof -
  have feed: "inAppNotifications threeBanners =
     [\<lparr>n_id = js ''uuu'', n_message = js ''c'', n_type = Success, n_timestamp = 7\<rparr>,
      \<lparr>n_id = js ''uu'', n_message = js ''b'', n_type = Info, n_timestamp = 7\<rparr>,
      \<lparr>n_id = js ''u'', n_message = js ''a'', n_type = Info, n_timestamp = 7\<rparr>]"
    by (simp add: threeBanners_def addInAppNotification_run initialWorld_def quietEnv_def
        js_def)
  have absent: "\<forall>n \<in> set (inAppNotifications threeBanners). n_id n \<noteq> js ''x''"
    by (simp add: feed js_def)
  show ?thesis
    using removeInAppNotification_exact [of "js ''uu''" threeBanners]
      removeInAppNotification_exact [of "js ''x''" threeBanners] absent
    by (simp add: feed removeInAppNotification_def js_def)
qed

section \<open>The notification service\<close>

text \<open>
  C7. For every operation and payload, \<open>notifyCRUDOperation\<close> returns normally, enters
  \<open>showSystemNotification\<close> first and exactly once, and enters \<open>sendPushNotification\<close>
  and \<open>sendEmailNotification\<close> (once each, with the same operation and payload)
  exactly when \<open>isLocalAction\<close> is false and \<open>messagingAvailable\<close> is set.
\<close>

theorem notifyCRUDOperation_dispatch:
  assumes "notifyCRUDOperation e operation userData isLocalAction w = (r, w')"
  shows "r = Returns () \<and>
     hd (newEvents w w') =
       Invoke (ShowSystemNotification (systemTitle operation)
                 (systemMessage operation userData) Success) \<and>
     length (filter isGatewayCall (newEvents w w')) = 1 \<and>
     filter isPushDispatch (newEvents w w')
       = (if \<not> isLocalAction \<and> messagingAvailable w
          then [Invoke (SendPushNotification operation userData)] else []) \<and>
     filter isEmailDispatch (newEvents w w')
       = (if \<not> isLocalAction \<and> messagingAvailable w
          then [Invoke (SendEmailNotification operation userData)] else [])"
  using assms by (auto simp add: notifyCRUDOperation_run trace_defs newEvents_def)

theorem notifyCRUDOperation_dispatch_witness:
  "fst (notifyCRUDOperation quietEnv CREATE (CreatePayload ada) False messagingWorld)
     = Returns () \<and>
   length (filter isGatewayCall (newEvents messagingWorld
     (snd (notifyCRUDOperation quietEnv CREATE (CreatePayload ada) False messagingWorld)))) = 1 \<and>
   length (filter isPushDispatch (newEvents messagingWorld
     (snd (notifyCRUDOperation quietEnv CREATE (CreatePayload ada) False messagingWorld)))) = 1 \<and>
   length (filter isEmailDispatch (newEvents messagingWorld
     (snd (notifyCRUDOperation quietEnv CREATE (CreatePayload ada) False messagingWorld)))) = 1 \<and>
   length (filter isPushDispatch (newEvents messagingWorld
     (snd (notifyCRUDOperation quietEnv CREATE (CreatePayload ada) True messagingWorld)))) = 0 \<and>
   length (filter isPushDispatch (newEvents initialWorld
     (snd (notifyCRUDOperation quietEnv CREATE (CreatePayload ada) False initialWorld)))) = 0"
  using notifyCRUDOperation_dispatch
          [OF surjective_pairing, of quietEnv CREATE "CreatePayload ada" False messagingWorld]
        notifyCRUDOperation_dispatch
          [OF surjective_pairing, of quietEnv CREATE "CreatePayload ada" True messagingWorld]
        notifyCRUDOperation_dispatch
          [OF surjective_pairing, of quietEnv CREATE "CreatePayload ada" False initialWorld]
  by (simp add: initialWorld_def messagingWorld_def)


section \<open>The CRUD handlers\<close>

lemma addUser_valid_run:
  assumes "validateName (name w) = None" "validateEmail (email w) = None"
    "validateAge (age w) = None" "db w \<longrightarrow> addResult e = Some docId"
    "addUser e w = (r, w')"
  shows "r = Returns () \<and>
     users w' = mkUser (if db w then docId else uniqueId e (idsDrawn w)) (formData w)
                  (if db w then ServerTimestamp else ClientDate (now e)) # users w \<and>
     name w' = [] \<and> email w' = [] \<and> age w' = [] \<and> errors w' = noErrors \<and>
     submitting w' = False \<and> editingUser w' = editingUser w \<and>
     inAppNotifications w' =
       (if users w = [] then inAppNotifications w
        else \<lparr>n_id = uniqueId e (if db w then idsDrawn w else Suc (idsDrawn w)),
              n_message = loudspeaker @ js '' Notification: New user ''
                            @ quoted (trim (name w)) @ js '' added to the system'',
              n_type = Info, n_timestamp = now e\<rparr> # take 4 (inAppNotifications w)) \<and>
     newEvents w w' =
       (if db w then [CollectionAdd (formData w) ServerTimestamp] else [])
       @ notifyTrace e w CREATE
           (CreatePayload (mkUser (if db w then docId else uniqueId e (idsDrawn w)) (formData w)
                             (if db w then ServerTimestamp else ClientDate (now e))))
           (\<not> db w)
       @ [SetUsers]
       @ (if users w = [] then []
          else [SetTimeout (uniqueId e (if db w then idsDrawn w else Suc (idsDrawn w))) 5000])"
  using assms
  by (cases "db w")
     (auto simp add: addUser_def addUserAwaiting_def awaiting_def run_simps handler_defs
       prog_defs Let_def newEvents_def notifyTrace_def formData_def)



text \<open>
  Without that proviso the claim fails when the store is available: the listener is
  registered then, and a snapshot that already holds the added record, delivered while
  the handler awaits the store's \<open>add\<close>, replaces the list before the handler puts the
  record in front of it. The record is in the list twice, and the list is two longer.
\<close>

lemma remoteForm_valid:
  "validateName (name remoteForm) = None" "validateEmail (email remoteForm) = None"
  "validateAge (age remoteForm) = None"
  by (simp_all add: remoteForm_def filledForm_def initialWorld_def sample_fields_valid)



lemma updateUser_success_run:
  assumes "editingUser w = Some editing" "validateName (name w) = None"
    "validateEmail (email w) = None" "validateAge (age w) = None"
    "db w \<longrightarrow> \<not> updateThrows e" "updateUser e w = (r, w')"
  shows "r = Returns () \<and>
     users w' = (if db w then users w
                 else map (\<lambda>user. if u_id user = u_id editing
                                  then mergeUser user (formData w) else user) (users w)) \<and>
     editingUser w' = None \<and> name w' = [] \<and> email w' = [] \<and> age w' = [] \<and>
     errors w' = noErrors \<and> submitting w' = False \<and>
     newEvents w w' =
       (if db w then [DocUpdate (u_id editing) (formData w)] else [SetUsers])
       @ notifyTrace e w UPDATE
           (UpdatePayload (formData w) (u_id editing) (if db w then Some editing else None))
           (\<not> db w)
       @ (if length (users w) > 1 then [SetTimeout (uniqueId e (idsDrawn w)) 5000] else [])"
  using assms
  by (cases "db w")
     (auto simp add: updateUser_def run_simps handler_defs prog_defs Let_def newEvents_def
        notifyTrace_def)

lemma deleteUser_cancel_run:
  "deleteUser e userId PressCancel w = (Returns (), w\<lparr>trace := trace w @ [ConfirmDelete]\<rparr>)"
  by (simp add: deleteUser_def prog_defs)

lemma deleteUser_remote_run:
  assumes "db w" "\<not> deleteThrows e" "deleteUser e userId PressDelete w = (r, w')"
  shows "r = Returns () \<and> users w' = users w \<and>
     newEvents w w' =
       ConfirmDelete # DocDelete userId
         # (case find (\<lambda>user. u_id user = userId) (users w) of
              None \<Rightarrow> []
            | Some u \<Rightarrow> notifyTrace e w DELETE (DeletePayload userId u) False)
         @ (if length (users w) > 1 then [SetTimeout (uniqueId e (idsDrawn w)) 5000] else [])"
  using assms
  by (auto simp add: deleteUser_def deleteOnPress_def run_simps handler_defs prog_defs Let_def
        newEvents_def notifyTrace_def split: option.splits)

lemma deleteUser_local_run:
  assumes "\<not> db w" "deleteUser e userId PressDelete w = (r, w')"
  shows "r = Returns () \<and> users w' = filter (\<lambda>user. u_id user \<noteq> userId) (users w) \<and>
     newEvents w w' =
       ConfirmDelete # SetUsers
         # (case find (\<lambda>user. u_id user = userId) (users w) of
              None \<Rightarrow> []
            | Some u \<Rightarrow> notifyTrace e w DELETE (DeletePayload userId u) True)
         @ (if length (users w) > 1 then [SetTimeout (uniqueId e (idsDrawn w)) 5000] else [])"
  using assms
  by (auto simp add: deleteUser_def deleteOnPress_def run_simps handler_defs prog_defs Let_def
        newEvents_def notifyTrace_def split: option.splits)


lemma deleteUser_remote_failure_run:
  assumes "db w" "deleteThrows e" "deleteUser e userId PressDelete w = (r, w')"
  shows "r = Returns () \<and> users w' = users w \<and>
     newEvents w w' =
       ConfirmDelete # DocDelete userId
         # fallbackTrace e (js ''Error'') (js ''Failed to delete user. Please try again.'')
         @ [SetTimeout (uniqueId e (idsDrawn w)) 5000]"
  using assms
  by (auto simp add: deleteUser_def deleteOnPress_def run_simps handler_defs prog_defs Let_def
        newEvents_def split: option.splits)

lemma deleteUser_dialog_first:
  assumes "deleteUser e userId pressed w = (r, w')"
  shows "hd (newEvents w w') = ConfirmDelete"
proof (cases pressed)
  case PressCancel
  with assms show ?thesis by (auto simp add: deleteUser_cancel_run newEvents_def)
next
  case PressDelete
  show ?thesis
  proof (cases "db w")
    case False
    with deleteUser_local_run [of w e userId r w'] assms PressDelete show ?thesis by simp
  next
    case True
    show ?thesis
    proof (cases "deleteThrows e")
      case True
      with deleteUser_remote_failure_run [of w e userId r w'] assms PressDelete \<open>db w\<close>
      show ?thesis by simp
    next
      case False
      with deleteUser_remote_run [of w e userId r w'] assms PressDelete \<open>db w\<close>
      show ?thesis by simp
    qed
  qed
qed



text \<open>
  C6. \<open>deleteUser\<close> opens the confirmation dialog before anything else. On Cancel
  nothing but the dialog happened. On Delete with the store available and the removal
  succeeding, the store's delete is called and then, when the record is in the visible
  list, \<open>notifyCRUDOperation\<close> runs with that record as \<open>deletedUser\<close>; when the record
  is not in the list the removal is still called and the service is not entered at
  all. On Delete without the store the record is filtered out of the list, then notified
  in the same way.
\<close>

theorem deleteUser_confirm_remove_notify:
  assumes "deleteUser e userId pressed w = (r, w')"
  shows "hd (newEvents w w') = ConfirmDelete \<and>
    (pressed = PressCancel \<longrightarrow>
       r = Returns () \<and> w' = w\<lparr>trace := trace w @ [ConfirmDelete]\<rparr>) \<and>
    (pressed = PressDelete \<and> db w \<and> \<not> deleteThrows e \<longrightarrow>
       r = Returns () \<and>
       newEvents w w' =
         ConfirmDelete # DocDelete userId
           # (case find (\<lambda>user. u_id user = userId) (users w) of
                None \<Rightarrow> []
              | Some u \<Rightarrow> notifyTrace e w DELETE (DeletePayload userId u) False)
           @ (if length (users w) > 1 then [SetTimeout (uniqueId e (idsDrawn w)) 5000]
              else [])) \<and>
    (pressed = PressDelete \<and> \<not> db w \<longrightarrow>
       r = Returns () \<and> users w' = filter (\<lambda>user. u_id user \<noteq> userId) (users w) \<and>
       newEvents w w' =
         ConfirmDelete # SetUsers
           # (case find (\<lambda>user. u_id user = userId) (users w) of
                None \<Rightarrow> []
              | Some u \<Rightarrow> notifyTrace e w DELETE (DeletePayload userId u) True)
           @ (if length (users w) > 1 then [SetTimeout (uniqueId e (idsDrawn w)) 5000]
              else [])) \<and>
    (pressed = PressDelete \<and> db w \<and> \<not> deleteThrows e
       \<and> find (\<lambda>user. u_id user = userId) (users w) = None \<longrightarrow>
       filter isStoreCall (newEvents w w') = [DocDelete userId] \<and>
       \<not> list_ex isGatewayCall (newEvents w w') \<and>
       \<not> list_ex isPushDispatch (newEvents w w') \<and>
       \<not> list_ex isEmailDispatch (newEvents w w'))"
proof (cases pressed)
  case PressCancel
  with assms deleteUser_dialog_first [OF assms] show ?thesis
    by (auto simp add: deleteUser_cancel_run)
next
  case PressDelete
  show ?thesis
  proof (cases "db w")
    case False
    with deleteUser_local_run [of w e userId r w'] deleteUser_dialog_first [OF assms]
      assms PressDelete
    show ?thesis by simp
  next
    case True
    show ?thesis
    proof (cases "deleteThrows e")
      case True
      with deleteUser_dialog_first [OF assms] PressDelete \<open>db w\<close>
      show ?thesis by simp
    next
      case False
      with deleteUser_remote_run [of w e userId r w'] assms PressDelete \<open>db w\<close>
      show ?thesis by simp
    qed
  qed
qed

theorem deleteUser_confirm_remove_notify_witness:
  "newEvents remoteForm (snd (deleteUser quietEnv (js ''k'') PressCancel remoteForm))
     = [ConfirmDelete] \<and>
   users (snd (deleteUser quietEnv (js ''k'') PressCancel remoteForm)) = [ada] \<and>
   newEvents remoteForm (snd (deleteUser quietEnv (js ''k'') PressDelete remoteForm))
     = ConfirmDelete # DocDelete (js ''k'')
         # notifyTrace quietEnv remoteForm DELETE (DeletePayload (js ''k'') ada) False \<and>
   newEvents remoteForm (snd (deleteUser quietEnv (js ''zz'') PressDelete remoteForm))
     = [ConfirmDelete, DocDelete (js ''zz'')] \<and>
   users (snd (deleteUser quietEnv (js ''k'') PressDelete (remoteForm\<lparr>db := False\<rparr>))) = []"
proof -
  have c: "db remoteForm" "\<not> deleteThrows quietEnv" "users remoteForm = [ada]"
    "\<not> db (remoteForm\<lparr>db := False\<rparr>)" "users (remoteForm\<lparr>db := False\<rparr>) = [ada]"
    "u_id ada = js ''k''" "js ''k'' \<noteq> js ''zz''"
    by (simp_all add: remoteForm_def quietEnv_def ada_def js_def)
  show ?thesis
    using deleteUser_confirm_remove_notify
            [where e = quietEnv and userId = "js ''k''" and pressed = PressCancel and w = remoteForm,
             OF surjective_pairing]
      deleteUser_confirm_remove_notify
            [where e = quietEnv and userId = "js ''k''" and pressed = PressDelete and w = remoteForm,
             OF surjective_pairing]
      deleteUser_confirm_remove_notify
            [where e = quietEnv and userId = "js ''zz''" and pressed = PressDelete and w = remoteForm,
             OF surjective_pairing]
      deleteUser_confirm_remove_notify
            [where e = quietEnv and userId = "js ''k''" and pressed = PressDelete and w = "remoteForm\<lparr>db := False\<rparr>",
             OF surjective_pairing]
      c
    by (simp add: newEvents_def)
qed

lemma liveWorld_valid:
  "validateName (name liveWorld) = None" "validateEmail (email liveWorld) = None"
  "validateAge (age liveWorld) = None"
  by (simp_all add: liveWorld_def editingWorld_def remoteForm_def filledForm_def
      initialWorld_def sample_fields_valid)


text \<open>
  C5 (as the code has it). With the store available and whatever the notification
  attempts do (each may throw or be rejected):
  a successful \<open>addUser\<close> returns normally, has made the one store call, and before it
  sets the visible list it has entered \<open>showSystemNotification\<close> and, exactly when
  \<open>messagingAvailable\<close> is set, \<open>sendPushNotification\<close> and \<open>sendEmailNotification\<close>;
  a successful \<open>updateUser\<close> and a successful \<open>deleteUser\<close> return normally, make the
  one store call, never set the visible list themselves, and enter the same methods
  under the same condition, the deletion only when the record was found in the visible
  list. No run makes a second store call: nothing is rolled back.
\<close>

theorem remote_mutation_notifies_before_list_update:
  assumes "db w"
  shows
   "(validateName (name w) = None \<and> validateEmail (email w) = None
       \<and> validateAge (age w) = None \<and> addResult e = Some docId
       \<and> addUser e w = (ra, wa) \<longrightarrow>
       ra = Returns () \<and>
       filter isStoreCall (newEvents w wa) = [CollectionAdd (formData w) ServerTimestamp] \<and>
       users wa = mkUser docId (formData w) ServerTimestamp # users w \<and>
       list_ex (\<lambda>ev. ev = SetUsers) (newEvents w wa) \<and>
       list_ex isGatewayCall (beforeListUpdate (newEvents w wa)) \<and>
       (list_ex isPushDispatch (beforeListUpdate (newEvents w wa)) \<longleftrightarrow> messagingAvailable w) \<and>
       (list_ex isEmailDispatch (beforeListUpdate (newEvents w wa)) \<longleftrightarrow> messagingAvailable w)) \<and>
    (editingUser w = Some editing \<and> validateName (name w) = None
       \<and> validateEmail (email w) = None \<and> validateAge (age w) = None
       \<and> \<not> updateThrows e \<and> updateUser e w = (ru, wu) \<longrightarrow>
       ru = Returns () \<and>
       filter isStoreCall (newEvents w wu) = [DocUpdate (u_id editing) (formData w)] \<and>
       users wu = users w \<and> \<not> list_ex (\<lambda>ev. ev = SetUsers) (newEvents w wu) \<and>
       list_ex isGatewayCall (newEvents w wu) \<and>
       (list_ex isPushDispatch (newEvents w wu) \<longleftrightarrow> messagingAvailable w) \<and>
       (list_ex isEmailDispatch (newEvents w wu) \<longleftrightarrow> messagingAvailable w)) \<and>
    (\<not> deleteThrows e \<and> deleteUser e userId PressDelete w = (rd, wd) \<longrightarrow>
       rd = Returns () \<and>
       filter isStoreCall (newEvents w wd) = [DocDelete userId] \<and>
       users wd = users w \<and> \<not> list_ex (\<lambda>ev. ev = SetUsers) (newEvents w wd) \<and>
       (list_ex isGatewayCall (newEvents w wd)
          \<longleftrightarrow> find (\<lambda>user. u_id user = userId) (users w) \<noteq> None) \<and>
       (list_ex isPushDispatch (newEvents w wd)
          \<longleftrightarrow> find (\<lambda>user. u_id user = userId) (users w) \<noteq> None \<and> messagingAvailable w) \<and>
       (list_ex isEmailDispatch (newEvents w wd)
          \<longleftrightarrow> find (\<lambda>user. u_id user = userId) (users w) \<noteq> None \<and> messagingAvailable w))"
proof (intro conjI impI)
  assume a: "validateName (name w) = None \<and> validateEmail (email w) = None
       \<and> validateAge (age w) = None \<and> addResult e = Some docId
       \<and> addUser e w = (ra, wa)"
  then have run: "ra = Returns ()"
    "users wa = mkUser docId (formData w) ServerTimestamp # users w"
    "newEvents w wa =
       [CollectionAdd (formData w) ServerTimestamp]
       @ notifyTrace e w CREATE (CreatePayload (mkUser docId (formData w) ServerTimestamp)) False
       @ [SetUsers]
       @ (if users w = [] then [] else [SetTimeout (uniqueId e (idsDrawn w)) 5000])"
    using addUser_valid_run [of w e docId ra wa] assms by simp_all
  show "ra = Returns ()" by (rule run)
  show "users wa = mkUser docId (formData w) ServerTimestamp # users w" by (rule run)
  show "filter isStoreCall (newEvents w wa) = [CollectionAdd (formData w) ServerTimestamp]"
    by (simp add: run trace_defs)
  show "list_ex (\<lambda>ev. ev = SetUsers) (newEvents w wa)"
    by (simp add: run)
  show "list_ex isGatewayCall (beforeListUpdate (newEvents w wa))"
    by (simp add: run trace_defs beforeListUpdate_def)
  show "list_ex isPushDispatch (beforeListUpdate (newEvents w wa)) \<longleftrightarrow> messagingAvailable w"
    by (simp add: run trace_defs beforeListUpdate_def)
  show "list_ex isEmailDispatch (beforeListUpdate (newEvents w wa)) \<longleftrightarrow> messagingAvailable w"
    by (simp add: run trace_defs beforeListUpdate_def)
next
  assume a: "editingUser w = Some editing \<and> validateName (name w) = None
       \<and> validateEmail (email w) = None \<and> validateAge (age w) = None
       \<and> \<not> updateThrows e \<and> updateUser e w = (ru, wu)"
  then have run: "ru = Returns ()" "users wu = users w"
    "newEvents w wu =
       [DocUpdate (u_id editing) (formData w)]
       @ notifyTrace e w UPDATE (UpdatePayload (formData w) (u_id editing) (Some editing)) False
       @ (if length (users w) > 1 then [SetTimeout (uniqueId e (idsDrawn w)) 5000] else [])"
    using updateUser_success_run [of w editing e ru wu] assms by simp_all
  show "ru = Returns ()" by (rule run)
  show "users wu = users w" by (rule run)
  show "filter isStoreCall (newEvents w wu) = [DocUpdate (u_id editing) (formData w)]"
    by (simp add: run trace_defs)
  show "\<not> list_ex (\<lambda>ev. ev = SetUsers) (newEvents w wu)"
    by (simp add: run trace_defs)
  show "list_ex isGatewayCall (newEvents w wu)"
    by (simp add: run trace_defs)
  show "list_ex isPushDispatch (newEvents w wu) \<longleftrightarrow> messagingAvailable w"
    by (simp add: run trace_defs)
  show "list_ex isEmailDispatch (newEvents w wu) \<longleftrightarrow> messagingAvailable w"
    by (simp add: run trace_defs)
next
  assume a: "\<not> deleteThrows e \<and> deleteUser e userId PressDelete w = (rd, wd)"
  then have run: "rd = Returns ()" "users wd = users w"
    "newEvents w wd =
       ConfirmDelete # DocDelete userId
         # (case find (\<lambda>user. u_id user = userId) (users w) of
              None \<Rightarrow> []
            | Some u \<Rightarrow> notifyTrace e w DELETE (DeletePayload userId u) False)
         @ (if length (users w) > 1 then [SetTimeout (uniqueId e (idsDrawn w)) 5000] else [])"
    using deleteUser_remote_run [of w e userId rd wd] assms by simp_all
  show "rd = Returns ()" by (rule run)
  show "users wd = users w" by (rule run)
  show "filter isStoreCall (newEvents w wd) = [DocDelete userId]"
    by (simp add: run trace_defs split: option.split)
  show "\<not> list_ex (\<lambda>ev. ev = SetUsers) (newEvents w wd)"
    by (simp add: run trace_defs split: option.split)
  show "list_ex isGatewayCall (newEvents w wd)
          \<longleftrightarrow> find (\<lambda>user. u_id user = userId) (users w) \<noteq> None"
    by (simp add: run trace_defs split: option.split)
  show "list_ex isPushDispatch (newEvents w wd)
          \<longleftrightarrow> find (\<lambda>user. u_id user = userId) (users w) \<noteq> None \<and> messagingAvailable w"
    by (simp add: run trace_defs split: option.split)
  show "list_ex isEmailDispatch (newEvents w wd)
          \<longleftrightarrow> find (\<lambda>user. u_id user = userId) (users w) \<noteq> None \<and> messagingAvailable w"
    by (simp add: run trace_defs split: option.split)
qed

theorem remote_mutation_notifies_before_list_update_witness:
  "fst (addUser noisyEnv liveWorld) = Returns () \<and>
   length (users (snd (addUser noisyEnv liveWorld))) = 2 \<and>
   list_ex isGatewayCall (beforeListUpdate (newEvents liveWorld (snd (addUser noisyEnv liveWorld)))) \<and>
   list_ex isPushDispatch (beforeListUpdate (newEvents liveWorld (snd (addUser noisyEnv liveWorld)))) \<and>
   list_ex isEmailDispatch (beforeListUpdate (newEvents liveWorld (snd (addUser noisyEnv liveWorld)))) \<and>
   fst (updateUser noisyEnv liveWorld) = Returns () \<and>
   list_ex isPushDispatch (newEvents liveWorld (snd (updateUser noisyEnv liveWorld))) \<and>
   fst (deleteUser noisyEnv (js ''k'') PressDelete liveWorld) = Returns () \<and>
   list_ex isGatewayCall
     (newEvents liveWorld (snd (deleteUser noisyEnv (js ''k'') PressDelete liveWorld))) \<and>
   filter isStoreCall
     (newEvents liveWorld (snd (deleteUser noisyEnv (js ''k'') PressDelete liveWorld)))
     = [DocDelete (js ''k'')]"
proof -
  have c: "db liveWorld" "addResult noisyEnv = Some (js ''d1'')" "\<not> updateThrows noisyEnv"
    "\<not> deleteThrows noisyEnv" "editingUser liveWorld = Some ada" "messagingAvailable liveWorld"
    "users liveWorld = [ada]" "u_id ada = js ''k''"
    by (simp_all add: liveWorld_def editingWorld_def remoteForm_def noisyEnv_def quietEnv_def
        ada_def)
  show ?thesis
    using remote_mutation_notifies_before_list_update
        [where w = liveWorld and e = noisyEnv and docId = "js ''d1''" and editing = ada
           and userId = "js ''k''"
           and ra = "fst (addUser noisyEnv liveWorld)" and wa = "snd (addUser noisyEnv liveWorld)"
           and ru = "fst (updateUser noisyEnv liveWorld)"
           and wu = "snd (updateUser noisyEnv liveWorld)"
           and rd = "fst (deleteUser noisyEnv (js ''k'') PressDelete liveWorld)"
           and wd = "snd (deleteUser noisyEnv (js ''k'') PressDelete liveWorld)",
         OF c(1)]
      c liveWorld_valid
    by simp
qed

text \<open>
  The claim without these conditions fails: with \<open>messagingAvailable\<close> unset, a
  successful remote \<open>addUser\<close> sets the list and neither dispatcher was entered; and a
  successful remote deletion of an identifier that is not in the list enters no method
  of the service.
\<close>

theorem remote_notification_not_always_triggered:
  "fst (addUser quietEnv remoteForm) = Returns () \<and>
   filter isStoreCall (newEvents remoteForm (snd (addUser quietEnv remoteForm)))
     = [CollectionAdd (formData remoteForm) ServerTimestamp] \<and>
   list_ex (\<lambda>ev. ev = SetUsers) (newEvents remoteForm (snd (addUser quietEnv remoteForm))) \<and>
   \<not> list_ex isPushDispatch (newEvents remoteForm (snd (addUser quietEnv remoteForm))) \<and>
   \<not> list_ex isEmailDispatch (newEvents remoteForm (snd (addUser quietEnv remoteForm))) \<and>
   fst (deleteUser quietEnv (js ''zz'') PressDelete remoteForm) = Returns () \<and>
   filter isStoreCall
     (newEvents remoteForm (snd (deleteUser quietEnv (js ''zz'') PressDelete remoteForm)))
     = [DocDelete (js ''zz'')] \<and>
   \<not> list_ex isGatewayCall
     (newEvents remoteForm (snd (deleteUser quietEnv (js ''zz'') PressDelete remoteForm)))"
proof -
  have c: "db remoteForm" "addResult quietEnv = Some (js ''d1'')" "\<not> deleteThrows quietEnv"
    "\<not> messagingAvailable remoteForm" "users remoteForm = [ada]" "u_id ada \<noteq> js ''zz''"
    by (simp_all add: remoteForm_def filledForm_def initialWorld_def quietEnv_def ada_def js_def)
  have a: "db remoteForm \<longrightarrow> addResult quietEnv = Some (js ''d1'')"
    by (simp add: c)
  show ?thesis
    using addUser_valid_run [OF remoteForm_valid a surjective_pairing]
      deleteUser_remote_run [OF c(1) c(3) surjective_pairing, of "js ''zz''"] c
    by (simp add: trace_defs)
qed

section \<open>The callable function\<close>

lemma collectTokens_filter:
  "collectTokens s docs
     = filter (\<lambda>t. t \<noteq> [] \<and> Some t \<noteq> s) (List.map_filter doc_fcmToken docs)"
  by (induction docs) (auto split: option.splits)

lemma sendNotificationToAllUsers_fails_iff:
  "isl (snd (sendNotificationToAllUsers ce (Some d))) \<longleftrightarrow>
     (case usersSnapshot ce of
        None \<Rightarrow> True
      | Some docs \<Rightarrow>
          collectTokens (rq_senderToken d) docs \<noteq> [] \<and>
          (case buildMessage ce d (collectTokens (rq_senderToken d) docs) of
             None \<Rightarrow> True
           | Some message \<Rightarrow> sendMulticast ce message = None))"
  by (auto simp add: sendNotificationToAllUsers_def Let_def split: option.splits)

text \<open>
  C8 (as the code has it). The tokens collected are those of the user documents, in
  order, that are set, not empty and not the sender's. When the read succeeds and no
  token remains, nothing is sent and the result is the failure object with its message.
  When tokens remain and the message is built and sent, exactly that one multicast goes
  out, to those tokens, and the result carries the two counts. No call sends more than
  one multicast. The call on a request object fails (throws the \<open>HttpsError\<close>)
  exactly when the read throws or, with tokens remaining, building the message or the
  multicast send throws; the call on \<open>null\<close> fails.
\<close>

theorem sendNotificationToAllUsers_outcomes:
  "collectTokens (rq_senderToken d) docs
     = filter (\<lambda>t. t \<noteq> [] \<and> Some t \<noteq> rq_senderToken d) (List.map_filter doc_fcmToken docs) \<and>
   (usersSnapshot ce = Some docs \<and> collectTokens (rq_senderToken d) docs = [] \<longrightarrow>
      sendNotificationToAllUsers ce (Some d) = ([], Inr noUsersToNotify)) \<and>
   (usersSnapshot ce = Some docs \<and> collectTokens (rq_senderToken d) docs \<noteq> []
      \<and> buildMessage ce d (collectTokens (rq_senderToken d) docs) = Some message
      \<and> sendMulticast ce message = Some (successCount, failureCount) \<longrightarrow>
      sendNotificationToAllUsers ce (Some d) = ([message], Inr (sent successCount failureCount))
      \<and> m_tokens message = collectTokens (rq_senderToken d) docs) \<and>
   length (fst (sendNotificationToAllUsers ce (Some d))) \<le> 1 \<and>
   (isl (snd (sendNotificationToAllUsers ce (Some d))) \<longleftrightarrow>
      usersSnapshot ce = None \<or>
      (\<exists>docs'. usersSnapshot ce = Some docs' \<and> collectTokens (rq_senderToken d) docs' \<noteq> [] \<and>
         (buildMessage ce d (collectTokens (rq_senderToken d) docs') = None \<or>
          (\<exists>m. buildMessage ce d (collectTokens (rq_senderToken d) docs') = Some m
                \<and> sendMulticast ce m = None)))) \<and>
   sendNotificationToAllUsers ce None = ([], Inl internalError)"
proof -
  have build: "buildMessage ce d ts = Some m \<Longrightarrow> m_tokens m = ts" for ts m
    by (auto simp add: buildMessage_def split: option.splits)
  have len: "length (fst (sendNotificationToAllUsers ce (Some d))) \<le> 1"
    by (simp add: sendNotificationToAllUsers_def Let_def split: option.splits)
  have fails: "isl (snd (sendNotificationToAllUsers ce (Some d))) \<longleftrightarrow>
      usersSnapshot ce = None \<or>
      (\<exists>docs'. usersSnapshot ce = Some docs' \<and> collectTokens (rq_senderToken d) docs' \<noteq> [] \<and>
         (buildMessage ce d (collectTokens (rq_senderToken d) docs') = None \<or>
          (\<exists>m. buildMessage ce d (collectTokens (rq_senderToken d) docs') = Some m
                \<and> sendMulticast ce m = None)))"
    by (auto simp add: sendNotificationToAllUsers_fails_iff split: option.splits)
  show ?thesis
    using build len fails
    by (auto simp add: collectTokens_filter [symmetric] sendNotificationToAllUsers_def)
qed


lemma createRequest_tokens:
  "collectTokens (rq_senderToken createRequest) fourDocs = [js ''t1'']"
  "collectTokens (rq_senderToken createRequest) [\<lparr>doc_fcmToken = Some (js ''me'')\<rparr>] = []"
  by (simp_all add: createRequest_def fourDocs_def js_def)

lemma createRequest_message:
  "buildMessage ce createRequest [js ''t1''] = Some (createMessage\<lparr>m_timestamp := dateNow ce\<rparr>)"
  by (simp add: createRequest_def buildMessage_def buildNotification_def createMessage_def
      interpolate_def js_def)

theorem sendNotificationToAllUsers_outcomes_witness:
  "sendNotificationToAllUsers cloudOk (Some createRequest)
     = ([createMessage], Inr (sent 1 0)) \<and>
   m_tokens createMessage = [js ''t1''] \<and>
   sendNotificationToAllUsers cloudAlone (Some createRequest) = ([], Inr noUsersToNotify) \<and>
   isl (snd (sendNotificationToAllUsers (cloudOk\<lparr>usersSnapshot := None\<rparr>) (Some createRequest)))"
proof -
  have c: "usersSnapshot cloudOk = Some fourDocs" "dateNow cloudOk = 7"
    "sendMulticast cloudOk createMessage = Some (1, 0)"
    "usersSnapshot cloudAlone = Some [\<lparr>doc_fcmToken = Some (js ''me'')\<rparr>]"
    "createMessage\<lparr>m_timestamp := 7\<rparr> = createMessage"
    by (simp_all add: cloudOk_def cloudAlone_def createMessage_def)
  show ?thesis
    using sendNotificationToAllUsers_outcomes
        [where ce = cloudOk and d = createRequest and docs = fourDocs
           and message = createMessage and successCount = 1 and failureCount = 0]
      sendNotificationToAllUsers_outcomes
        [where ce = cloudAlone and d = createRequest
           and docs = "[\<lparr>doc_fcmToken = Some (js ''me'')\<rparr>]"]
      sendNotificationToAllUsers_outcomes
        [where ce = "cloudOk\<lparr>usersSnapshot := None\<rparr>" and d = createRequest]
      c createRequest_tokens createRequest_message [of cloudOk]
    by simp
qed

text \<open>
  The read succeeds and the call fails all the same: the multicast send is rejected,
  inside the same \<open>try\<close>.
\<close>

theorem sendNotificationToAllUsers_fails_on_send:
  "usersSnapshot cloudSendFails = Some fourDocs \<and>
   sendNotificationToAllUsers cloudSendFails (Some createRequest)
     = ([createMessage], Inl internalError)"
proof -
  have c: "usersSnapshot cloudSendFails = Some fourDocs" "dateNow cloudSendFails = 7"
    "sendMulticast cloudSendFails createMessage = None"
    "createMessage\<lparr>m_timestamp := 7\<rparr> = createMessage"
    by (simp_all add: cloudSendFails_def cloudOk_def createMessage_def)
  show ?thesis
    using c createRequest_tokens createRequest_message [of cloudSendFails]
    by (simp add: sendNotificationToAllUsers_def)
qed

end
